theory Spec2Isabelle
  imports Complex_Main "HOL-Library.Word" "HOL-Library.AList"
begin

section \<open>The basic render engine of flame-chart-js\<close>

text \<open>
  A shallow embedding of the class \<open>BasicRenderEngine\<close>: the render queue, the
  drawing-state cache, the pattern registry, the text fitter and the pan clamp.

  Conventions of the model.
  \<^item> A JavaScript number is a real number. The model covers finite values only: it has
    no NaN, no infinity and no rounding. Every division of the source is kept, and a
    theorem that depends on one states that the divisor is not zero.
  \<^item> Property names, colours and pattern names are Isabelle strings; only their
    equality and their emptiness are used. A label text, which the code measures, counts
    and slices by UTF-16 code unit, is a list of 16-bit words.
  \<^item> An object used as a dictionary is an association list in insertion order
    (\<open>obj[k] = v\<close> is \<^const>\<open>AList.update\<close>), or a map where the code never enumerates
    it; these hold the object's own properties. A read \<open>obj[k]\<close> with a string \<open>k\<close> that
    callers choose (a pattern name, a colour) also finds what a plain object inherits from
    \<open>Object.prototype\<close>, such as \<open>constructor\<close>: see \<open>get_property\<close>. The queue is keyed by
    decimal strings, which are never inherited names. The two caches are keyed by names
    of fields and methods of the canvas context; an inherited value differs from every
    number and string, as a missing one does, and the accessor \<open>__proto__\<close>, not a field of
    the context, is left out there.
  \<^item> A call that can throw, or that can go on inside a built-in object, returns an
    \<open>outcome\<close>, which carries the engine as it is at that moment.
  \<^item> The canvas context is the list of the writes and calls made on it, oldest first.
  \<^item> The rectangle objects that callers hand to \<open>addRect\<close> live in a store
    (\<open>heap\<close>), and the queue holds their addresses: the code keeps the caller's object
    and writes into it.
\<close>

subsection \<open>Values\<close>

type_synonym jsstring = "16 word list"

definition ellipsis :: "16 word" where
  "ellipsis = 0x2026"

type_synonym ref = nat

type_synonym CanvasPattern = nat

datatype jsval = Num real | Str string | PatternValue CanvasPattern

text \<open>JavaScript truthiness, as \<open>!v\<close> and \<open>v || d\<close> read it.\<close>

fun truthy :: "jsval \<Rightarrow> bool" where
  "truthy (Num r) = (r \<noteq> 0)"
| "truthy (Str t) = (t \<noteq> [])"
| "truthy (PatternValue p) = True"

text \<open>
  A \<open>DOMMatrixReadOnly\<close> is kept as the calls that built it: \<open>new DOMMatrixReadOnly()\<close>,
  \<open>m.scale(sx, sy)\<close> and \<open>m.translate(tx, ty)\<close>.
\<close>

datatype DOMMatrix =
    NewMatrix
  | MatrixScale DOMMatrix real real
  | MatrixTranslate DOMMatrix real real

datatype ctx_op =
    SetField string jsval
  | CallFn string jsval
  | FillRect real real real real
  | FillText jsstring real real
  | SetLineDash "real list"
  | StrokeRect real real real real
  | SetTransform CanvasPattern DOMMatrix

subsection \<open>Queue items\<close>

record Rect =
  rect_color :: string
  rect_pattern :: "string option"
  rect_x :: real
  rect_y :: real
  rect_w :: real
  rect_h :: "real option"

record Text =
  text_text :: jsstring
  text_x :: real
  text_y :: real
  text_w :: real
  textMaxWidth :: real

record Stroke =
  stroke_color :: string
  stroke_x :: real
  stroke_y :: real
  stroke_w :: real
  stroke_h :: real

type_synonym RectRenderQueue = "(string \<times> (string \<times> ref list) list) list"

record bucket =
  q_text :: "Text list"
  q_stroke :: "Stroke list"
  q_rect :: RectRenderQueue

record Pattern =
  pat_scale :: real
  pat_width :: real
  pat_pattern :: CanvasPattern

subsection \<open>The engine\<close>

record engine =
  width :: real
  blockHeight :: real
  blockPaddingLeftRight :: real
  blockPaddingTopBottom :: real
  placeholderWidth :: real
  fontColor :: string
  queue :: "(int \<times> bucket) list"
  zoom :: real
  positionX :: real
  min_time :: real
  max_time :: real
  patterns :: "string \<rightharpoonup> Pattern"
  ctxCachedSettings :: "string \<rightharpoonup> jsval"
  ctxCachedCalls :: "string \<rightharpoonup> jsval"
  ctx :: "ctx_op list"
  heap :: "ref \<Rightarrow> Rect"
  created :: "(string \<times> CanvasPattern) list"

text \<open>
  \<open>min_time\<close> and \<open>max_time\<close> are the fields \<open>min\<close> and \<open>max\<close>; \<open>fontColor\<close> is
  \<open>styles.fontColor\<close>. \<open>created\<close> records every invocation of a pattern creator, with the
  name it was registered under and the tile resource it built.
\<close>

subsection \<open>The drawing-state cache\<close>

definition setCtxValue :: "string \<Rightarrow> jsval \<Rightarrow> engine \<Rightarrow> engine" where
  "setCtxValue field v s =
     (if ctxCachedSettings s field \<noteq> Some v
      then s\<lparr>ctx := ctx s @ [SetField field v],
             ctxCachedSettings := (ctxCachedSettings s)(field \<mapsto> v)\<rparr>
      else s)"

text \<open>\<open>!this.ctxCachedCalls[fn]\<close>: no cached argument, or a falsy one.\<close>

definition no_cached_call :: "engine \<Rightarrow> string \<Rightarrow> bool" where
  "no_cached_call s fn = (case ctxCachedCalls s fn of None \<Rightarrow> True | Some c \<Rightarrow> \<not> truthy c)"

definition callCtx :: "string \<Rightarrow> jsval \<Rightarrow> engine \<Rightarrow> engine" where
  "callCtx fn v s =
     (if no_cached_call s fn \<or> ctxCachedCalls s fn \<noteq> Some v
      then s\<lparr>ctx := ctx s @ [CallFn fn v],
             ctxCachedCalls := (ctxCachedCalls s)(fn \<mapsto> v)\<rparr>
      else s)"

definition reset :: "engine \<Rightarrow> engine" where
  "reset s = s\<lparr>queue := [], ctxCachedCalls := Map.empty, ctxCachedSettings := Map.empty\<rparr>"

subsection \<open>Blocks and strokes\<close>

definition renderBlock :: "real \<Rightarrow> real \<Rightarrow> real \<Rightarrow> real option \<Rightarrow> engine \<Rightarrow> engine" where
  "renderBlock x y w h s =
     (let truncatedX = min (width s) (max 0 x);
          delta = truncatedX - x;
          drawWidth = min (width s - truncatedX) (max 0 (w - delta))
      in s\<lparr>ctx := ctx s @
           [FillRect truncatedX y drawWidth (case h of None \<Rightarrow> blockHeight s | Some v \<Rightarrow> v)]\<rparr>)"

definition renderStroke :: "string \<Rightarrow> real \<Rightarrow> real \<Rightarrow> real \<Rightarrow> real \<Rightarrow> engine \<Rightarrow> engine" where
  "renderStroke c x y w h s =
     (let s1 = setCtxValue ''strokeStyle'' (Str c) s
      in s1\<lparr>ctx := ctx s1 @
           [SetLineDash [], SetField ''lineWidth'' (Num (3 / 2)), StrokeRect x y w h]\<rparr>)"

subsection \<open>Position and zoom\<close>

definition getRealView :: "engine \<Rightarrow> real" where
  "getRealView s = width s / zoom s"

text \<open>\<open>setPositionX\<close> returns the shift it applied, next to the new state.\<close>

definition setPositionX :: "real \<Rightarrow> engine \<Rightarrow> real \<times> engine" where
  "setPositionX x s = (x - positionX s, s\<lparr>positionX := x\<rparr>)"

definition tryToChangePosition :: "real \<Rightarrow> engine \<Rightarrow> engine" where
  "tryToChangePosition positionDelta s =
     (let realView = getRealView s in
      if positionX s + positionDelta + realView \<le> max_time s \<and>
         positionX s + positionDelta \<ge> min_time s
      then snd (setPositionX (positionX s + positionDelta) s)
      else if positionX s + positionDelta \<le> min_time s
      then snd (setPositionX (min_time s) s)
      else if positionX s + positionDelta + realView \<ge> max_time s
      then snd (setPositionX (max_time s - realView) s)
      else s)"

text \<open>The spec's \<open>clamp(v, lo, hi)\<close>.\<close>

definition clamp :: "real \<Rightarrow> real \<Rightarrow> real \<Rightarrow> real" where
  "clamp v lo hi = min hi (max lo v)"

subsection \<open>Outcomes, and the properties every plain object inherits\<close>

text \<open>
  \<open>Returns a\<close>: the call returns. \<open>TypeError a\<close>: the call throws a \<open>TypeError\<close>; what it
  changed before stays changed. \<open>Outside a\<close>: the call goes on with a built-in object
  (\<open>Object\<close>, \<open>Object.prototype\<close> or one of its methods) in the place of an object of the
  engine; what follows happens outside the engine and is not modelled. In each case \<open>a\<close>
  is the state at that moment.
\<close>

datatype 'a outcome =
    Returns (state_of: 'a)
  | TypeError (state_of: 'a)
  | Outside (state_of: 'a)

fun after :: "'a outcome \<Rightarrow> ('a \<Rightarrow> 'a outcome) \<Rightarrow> 'a outcome" where
  "after (Returns a) f = f a"
| "after (TypeError a) f = TypeError a"
| "after (Outside a) f = Outside a"

text \<open>\<open>xs.forEach(f)\<close> for a callback that can throw: the first throw ends the loop.\<close>

fun forEach :: "('x \<Rightarrow> 'a \<Rightarrow> 'a outcome) \<Rightarrow> 'x list \<Rightarrow> 'a \<Rightarrow> 'a outcome" where
  "forEach f [] a = Returns a"
| "forEach f (x # xs) a = after (f x a) (forEach f xs)"

text \<open>
  The property names of \<open>Object.prototype\<close>. Each of them reads, on a plain object that
  has no own property of the name, as a function or as the prototype object itself: a
  truthy value that has no \<open>push\<close>, no \<open>scale\<close> and no \<open>pattern\<close>.
\<close>

definition prototype_names :: "string list" where
  "prototype_names =
     [''constructor'', ''__defineGetter__'', ''__defineSetter__'', ''hasOwnProperty'',
      ''__lookupGetter__'', ''__lookupSetter__'', ''isPrototypeOf'', ''propertyIsEnumerable'',
      ''toString'', ''valueOf'', ''__proto__'', ''toLocaleString'']"

definition inherited :: "string \<Rightarrow> bool" where
  "inherited k = (k \<in> set prototype_names)"

text \<open>\<open>obj[k]\<close> on a plain object whose own properties are \<open>obj\<close>.\<close>

datatype 'v property = Own 'v | Inherited | Missing

definition get_property :: "(string \<rightharpoonup> 'v) \<Rightarrow> string \<Rightarrow> 'v property" where
  "get_property obj k =
     (case obj k of Some v \<Rightarrow> Own v | None \<Rightarrow> if inherited k then Inherited else Missing)"

subsection \<open>The queue\<close>

definition empty_bucket :: bucket where
  "empty_bucket = \<lparr>q_text = [], q_stroke = [], q_rect = []\<rparr>"

text \<open>
  The queue object is keyed by \<open>String(priority)\<close>. Priorities are integers here, and a
  key stands for the decimal string of its integer, which \<open>parseInt\<close> reads back (for
  magnitudes below \<open>10^21\<close>, where \<open>String\<close> does not switch to exponent notation).

  \<open>getQueue\<close> creates the bucket when it is missing and returns the bucket object; the
  callers then write into that object, which is \<open>modify_bucket\<close> on the queue.
\<close>

definition getQueue :: "int \<Rightarrow> engine \<Rightarrow> engine" where
  "getQueue priority s =
     (if map_of (queue s) priority = None
      then s\<lparr>queue := AList.update priority empty_bucket (queue s)\<rparr>
      else s)"

definition modify_bucket :: "int \<Rightarrow> (bucket \<Rightarrow> bucket) \<Rightarrow> engine \<Rightarrow> engine" where
  "modify_bucket priority f s = s\<lparr>queue := AList.map_entry priority f (queue s)\<rparr>"

text \<open>
  The three statements of \<open>addRect\<close> after the pattern default. First,
  \<open>queue.rect[pattern]\<close> is created when the read is falsy; for an inherited name it is
  not, and the code goes on with the built-in object it found. Then, in \<open>push_color\<close>,
  \<open>queue.rect[pattern][color]\<close> is created when the read is falsy, and the rectangle is
  pushed; for an inherited name nothing is created and the value found has no \<open>push\<close>, so
  the call throws.
\<close>

definition push_color ::
  "string \<Rightarrow> string \<Rightarrow> ref \<Rightarrow> RectRenderQueue \<Rightarrow> (string \<times> ref list) list \<Rightarrow>
     RectRenderQueue outcome" where
  "push_color p c r rq colors =
     (case get_property (map_of colors) c of
        Inherited \<Rightarrow> TypeError rq
      | Own items \<Rightarrow> Returns (AList.update p (AList.update c (items @ [r]) colors) rq)
      | Missing \<Rightarrow> Returns (AList.update p (AList.update c [r] colors) rq))"

definition push_rect ::
  "string \<Rightarrow> string \<Rightarrow> ref \<Rightarrow> RectRenderQueue \<Rightarrow> RectRenderQueue outcome" where
  "push_rect p c r rq =
     (case get_property (map_of rq) p of
        Inherited \<Rightarrow> Outside rq
      | Own colors \<Rightarrow> push_color p c r rq colors
      | Missing \<Rightarrow> push_color p c r (AList.update p [] rq) [])"

text \<open>\<open>rect.pattern || 'none'\<close>: an absent or empty pattern name becomes \<open>'none'\<close>.\<close>

definition pattern_or_none :: "string option \<Rightarrow> string" where
  "pattern_or_none p = (case p of None \<Rightarrow> ''none'' | Some n \<Rightarrow> if n = [] then ''none'' else n)"

definition addRect :: "ref \<Rightarrow> int \<Rightarrow> engine \<Rightarrow> engine outcome" where
  "addRect r priority s =
     (let s1 = getQueue priority s;
          rect = heap s1 r;
          p = pattern_or_none (rect_pattern rect);
          s2 = s1\<lparr>heap := (heap s1)(r := rect\<lparr>rect_pattern := Some p\<rparr>)\<rparr>;
          rq = (case map_of (queue s2) priority of Some b \<Rightarrow> q_rect b | None \<Rightarrow> [])
      in map_outcome (\<lambda>rq'. modify_bucket priority (\<lambda>b. b\<lparr>q_rect := rq'\<rparr>) s2)
           (push_rect p (rect_color rect) r rq))"

definition addText :: "jsstring \<Rightarrow> real \<Rightarrow> real \<Rightarrow> real \<Rightarrow> int \<Rightarrow> engine \<Rightarrow> engine" where
  "addText t x y w priority s =
     (if t \<noteq> [] then
        (let tmw = w - (blockPaddingLeftRight s * 2 - (if x < 0 then x else 0)) in
         if tmw > 0
         then modify_bucket priority
                (\<lambda>b. b\<lparr>q_text := q_text b @
                   [\<lparr>text_text = t, text_x = x, text_y = y, text_w = w, textMaxWidth = tmw\<rparr>]\<rparr>)
                (getQueue priority s)
         else s)
      else s)"

text \<open>
  \<open>addStroke\<close> pushes the caller's object as well; the engine never writes into a stroke,
  so the queue holds its value.
\<close>

definition addStroke :: "Stroke \<Rightarrow> int \<Rightarrow> engine \<Rightarrow> engine" where
  "addStroke stroke priority s =
     modify_bucket priority (\<lambda>b. b\<lparr>q_stroke := q_stroke b @ [stroke]\<rparr>) (getQueue priority s)"

subsection \<open>Enumerating an object, sorting an array\<close>

text \<open>
  \<open>Object.keys\<close> and \<open>Object.entries\<close> list the keys that are array indices (canonical
  decimal strings below \<open>2^32 - 1\<close>) first, in ascending numeric order, and then the
  other keys in insertion order.
\<close>

definition array_index :: "int \<Rightarrow> bool" where
  "array_index k = (0 \<le> k \<and> k < 2 ^ 32 - 1)"

definition Object_keys :: "(int \<times> 'v) list \<Rightarrow> int list" where
  "Object_keys obj =
     sort (filter array_index (map fst obj)) @ filter (\<lambda>k. \<not> array_index k) (map fst obj)"

definition is_digit :: "char \<Rightarrow> bool" where
  "is_digit c = (48 \<le> (of_char c :: nat) \<and> (of_char c :: nat) \<le> 57)"

definition parse_digits :: "string \<Rightarrow> nat" where
  "parse_digits k = foldl (\<lambda>n c. 10 * n + (of_char c - 48)) 0 k"

definition string_index :: "string \<Rightarrow> nat option" where
  "string_index k =
     (if k \<noteq> [] \<and> list_all is_digit k \<and> (k = ''0'' \<or> hd k \<noteq> CHR ''0'') \<and>
         parse_digits k < 2 ^ 32 - 1
      then Some (parse_digits k) else None)"

definition Object_entries :: "(string \<times> 'v) list \<Rightarrow> (string \<times> 'v) list" where
  "Object_entries obj =
     sort_key (\<lambda>e. case string_index (fst e) of Some n \<Rightarrow> n | None \<Rightarrow> 0)
       (filter (\<lambda>e. string_index (fst e) \<noteq> None) obj)
     @ filter (\<lambda>e. string_index (fst e) = None) obj"

text \<open>\<open>String(n)\<close> for an integer: its decimal digits, with a minus sign when negative.\<close>

definition digit_char :: "nat \<Rightarrow> char" where
  "digit_char d = char_of (of_char CHR ''0'' + d)"

fun digits :: "nat \<Rightarrow> string" where
  "digits n = (if 10 \<le> n then digits (n div 10) @ [digit_char (n mod 10)] else [digit_char n])"

definition toString :: "int \<Rightarrow> string" where
  "toString i = (if i < 0 then CHR ''-'' # digits (nat (- i)) else digits (nat i))"

text \<open>The order of strings that \<open>sort()\<close> uses without a comparator: by code unit.\<close>

fun string_less :: "string \<Rightarrow> string \<Rightarrow> bool" where
  "string_less [] [] = False"
| "string_less [] (b # bs) = True"
| "string_less (a # as) [] = False"
| "string_less (a # as) (b # bs) =
     ((of_char a :: nat) < of_char b \<or> (a = b \<and> string_less as bs))"

text \<open>
  \<open>Array.prototype.sort()\<close> with no comparator: a stable sort of the elements by their
  strings. An insertion sort that puts an element before the first one that is not
  smaller is such a sort.
\<close>

fun sort_insert :: "int \<Rightarrow> int list \<Rightarrow> int list" where
  "sort_insert a [] = [a]"
| "sort_insert a (b # bs) =
     (if string_less (toString b) (toString a) then b # sort_insert a bs else a # b # bs)"

definition array_sort :: "int list \<Rightarrow> int list" where
  "array_sort xs = foldr sort_insert xs []"

subsection \<open>Patterns\<close>

text \<open>
  Modelled from the spec: the types \<open>Pattern\<close> and \<open>PatternCreator\<close> of the module
  \<open>../patterns\<close>, which is not among the sources. A pattern is a scale, a tile width
  and a tileable fill resource, as \<open>renderRects\<close> reads them; a creator, given the
  engine, returns the fill resource and optionally its own scale and width, which
  \<open>createBlockPattern\<close> merges over the defaults \<open>scale = 1\<close> and \<open>width = 10\<close>. The table
  \<open>defaultPatterns\<close> of that module is a parameter of \<open>createDefaultPattern\<close>: it gives, for
  a kind, the creator factory that the read \<open>defaultPatterns[type]\<close> finds, and \<open>None\<close> when
  the read is falsy.

  \<open>this.patterns[name] = ...\<close> makes an own property, except for the name \<open>__proto__\<close>:
  that assignment replaces the prototype of \<open>this.patterns\<close>, after the creator has run.
\<close>

record CreatedPattern =
  cp_scale :: "real option"
  cp_width :: "real option"
  cp_pattern :: CanvasPattern

type_synonym PatternCreator = "engine \<Rightarrow> CreatedPattern"

record 'c DefaultPatterns =
  dp_name :: string
  dp_type :: string
  dp_config :: 'c

definition createBlockPattern :: "string \<Rightarrow> PatternCreator \<Rightarrow> engine \<Rightarrow> engine outcome" where
  "createBlockPattern name creator s =
     (let r = creator s;
          s1 = s\<lparr>created := created s @ [(name, cp_pattern r)]\<rparr>
      in if name = ''__proto__'' then Outside s1
         else Returns
           (s1\<lparr>patterns := (patterns s)(name \<mapsto>
                \<lparr>pat_scale = (case cp_scale r of None \<Rightarrow> 1 | Some v \<Rightarrow> v),
                 pat_width = (case cp_width r of None \<Rightarrow> 10 | Some v \<Rightarrow> v),
                 pat_pattern = cp_pattern r\<rparr>)\<rparr>))"

definition createDefaultPattern ::
  "(string \<Rightarrow> ('c \<Rightarrow> PatternCreator) option) \<Rightarrow> 'c DefaultPatterns \<Rightarrow> engine \<Rightarrow>
     engine outcome" where
  "createDefaultPattern defaultPatterns d s =
     (case defaultPatterns (dp_type d) of
        Some defaultPattern \<Rightarrow> createBlockPattern (dp_name d) (defaultPattern (dp_config d)) s
      | None \<Rightarrow> Returns s)"

text \<open>
  \<open>!this.patterns[pattern.name]\<close> holds only when the name is neither an own property nor
  an inherited one.
\<close>

definition createCachedDefaultPattern ::
  "(string \<Rightarrow> ('c \<Rightarrow> PatternCreator) option) \<Rightarrow> 'c DefaultPatterns \<Rightarrow> engine \<Rightarrow>
     engine outcome" where
  "createCachedDefaultPattern defaultPatterns d s =
     (case get_property (patterns s) (dp_name d) of
        Missing \<Rightarrow> createDefaultPattern defaultPatterns d s
      | Own p \<Rightarrow> Returns s
      | Inherited \<Rightarrow> Returns s)"

subsection \<open>Resolving the queue\<close>

text \<open>The body of \<open>items.forEach\<close> in \<open>renderRects\<close>.\<close>

definition renderRect :: "Pattern option \<Rightarrow> DOMMatrix \<Rightarrow> ref \<Rightarrow> engine \<Rightarrow> engine" where
  "renderRect pattern matrix r s =
     (let rect = heap s r;
          s1 = (case pattern of
                  Some p \<Rightarrow>
                    (let fullDeltaX = rect_x rect * pat_scale p;
                         deltaX = fullDeltaX -
                           real_of_int \<lfloor>fullDeltaX / pat_width p\<rfloor> * pat_width p
                     in s\<lparr>ctx := ctx s @
                          [SetTransform (pat_pattern p)
                             (MatrixTranslate matrix deltaX (rect_y rect * pat_scale p))]\<rparr>)
                | None \<Rightarrow> s)
      in renderBlock (rect_x rect) (rect_y rect) (rect_w rect) (rect_h rect) s1)"

text \<open>The body of \<open>Object.entries(colors).forEach\<close>.\<close>

definition renderColor ::
  "Pattern option \<Rightarrow> DOMMatrix \<Rightarrow> string \<times> ref list \<Rightarrow> engine \<Rightarrow> engine" where
  "renderColor pattern matrix entry s =
     fold (renderRect pattern matrix) (snd entry)
       (if pattern = None then setCtxValue ''fillStyle'' (Str (fst entry)) s else s)"

text \<open>
  The body of \<open>Object.entries(rects).forEach\<close>. For a pattern name that is not registered
  but inherited, \<open>this.patterns[patternName]\<close> is a built-in object and the code takes it
  for the pattern: its \<open>scale\<close> and its \<open>pattern\<close> are undefined.
\<close>

definition renderPattern ::
  "string \<times> (string \<times> ref list) list \<Rightarrow> engine \<Rightarrow> engine outcome" where
  "renderPattern entry s =
     (let patternName = fst entry; colors = snd entry in
      case (if patternName \<noteq> ''none'' then get_property (patterns s) patternName else Missing) of
        Own p \<Rightarrow>
          (let matrix = (if pat_scale p \<noteq> 1
                         then MatrixScale NewMatrix (1 / pat_scale p) (1 / pat_scale p)
                         else NewMatrix);
               s1 = s\<lparr>ctx := ctx s @ [SetField ''fillStyle'' (PatternValue (pat_pattern p))],
                      ctxCachedSettings := (ctxCachedSettings s)(''fillStyle'' \<mapsto> Str patternName)\<rparr>
           in Returns (fold (renderColor (Some p) matrix) (Object_entries colors) s1))
      | Inherited \<Rightarrow> Outside s
      | Missing \<Rightarrow> Returns (fold (renderColor None NewMatrix) (Object_entries colors) s))"

definition renderRects :: "RectRenderQueue \<Rightarrow> engine \<Rightarrow> engine outcome" where
  "renderRects rects s = forEach renderPattern (Object_entries rects) s"

text \<open>
  \<open>String.prototype.slice(start, end)\<close>: a negative position counts from the end, and both
  are cut to the string.
\<close>

definition slice :: "jsstring \<Rightarrow> int \<Rightarrow> int \<Rightarrow> jsstring" where
  "slice t start fin =
     (let len = int (length t);
          k = (if start < 0 then max (len + start) 0 else min start len);
          e = (if fin < 0 then max (len + fin) 0 else min fin len)
      in if k < e then take (nat (e - k)) (drop (nat k) t) else [])"

text \<open>
  The text of an item after the \<open>if (textWidth > textMaxWidth)\<close> block of \<open>renderTexts\<close>;
  \<open>textWidth\<close> is what \<open>measureText\<close> gave for the text.
\<close>

definition fittedText :: "engine \<Rightarrow> real \<Rightarrow> Text \<Rightarrow> jsstring" where
  "fittedText s textWidth item =
     (let t = text_text item in
      if textWidth > textMaxWidth item then
        (let avgCharWidth = textWidth / real (length t);
             maxChars = \<lfloor>(textMaxWidth item - placeholderWidth s) / avgCharWidth\<rfloor>;
             halfChars = (real_of_int maxChars - 1) / 2
         in if halfChars > 0
            then slice t 0 \<lceil>halfChars\<rceil> @ [ellipsis] @
                 slice t (int (length t) - \<lfloor>halfChars\<rfloor>) (int (length t))
            else [])
      else t)"

text \<open>The body of \<open>texts.forEach\<close>; \<open>measureText\<close> is the canvas's, a parameter.\<close>

definition renderText :: "(jsstring \<Rightarrow> real) \<Rightarrow> Text \<Rightarrow> engine \<Rightarrow> engine" where
  "renderText measureText item s =
     (let t = fittedText s (measureText (text_text item)) item in
      if t \<noteq> []
      then s\<lparr>ctx := ctx s @
             [FillText t
                ((if text_x item < 0 then 0 else text_x item) + blockPaddingLeftRight s)
                (text_y item + blockHeight s - blockPaddingTopBottom s)]\<rparr>
      else s)"

definition renderTexts :: "(jsstring \<Rightarrow> real) \<Rightarrow> Text list \<Rightarrow> engine \<Rightarrow> engine" where
  "renderTexts measureText texts s =
     fold (renderText measureText) texts (setCtxValue ''fillStyle'' (Str (fontColor s)) s)"

definition renderStrokes :: "Stroke list \<Rightarrow> engine \<Rightarrow> engine" where
  "renderStrokes strokes s =
     fold (\<lambda>k. renderStroke (stroke_color k) (stroke_x k) (stroke_y k) (stroke_w k) (stroke_h k))
       strokes s"

text \<open>
  The body of the \<open>forEach\<close> of \<open>resolveQueue\<close>. A key of the queue always has its bucket;
  were it missing, the destructuring would throw.
\<close>

definition renderPriority ::
  "(jsstring \<Rightarrow> real) \<Rightarrow> (int \<times> bucket) list \<Rightarrow> int \<Rightarrow> engine \<Rightarrow> engine outcome" where
  "renderPriority measureText q priority s =
     (case map_of q priority of
        None \<Rightarrow> TypeError s
      | Some b \<Rightarrow>
          after (renderRects (q_rect b) s)
            (\<lambda>s1. Returns (renderStrokes (q_stroke b) (renderTexts measureText (q_text b) s1))))"

definition resolveQueue :: "(jsstring \<Rightarrow> real) \<Rightarrow> engine \<Rightarrow> engine outcome" where
  "resolveQueue measureText s =
     after (forEach (renderPriority measureText (queue s)) (array_sort (Object_keys (queue s))) s)
       (\<lambda>s'. Returns (s'\<lparr>queue := []\<rparr>))"

subsection \<open>Reading the model\<close>

text \<open>The texts and the rectangles queued under a priority; empty when there is no bucket.\<close>

definition texts_at :: "engine \<Rightarrow> int \<Rightarrow> Text list" where
  "texts_at s priority = (case map_of (queue s) priority of None \<Rightarrow> [] | Some b \<Rightarrow> q_text b)"


text \<open>What a step from \<open>s\<close> to \<open>s'\<close> added to the log of the canvas context.\<close>

definition logged_since :: "engine \<Rightarrow> engine \<Rightarrow> ctx_op list" where
  "logged_since s s' = drop (length (ctx s)) (ctx s')"

text \<open>The remainder \<open>a mod b\<close> on numbers, of the sign of \<open>b\<close>: \<open>a - floor(a / b) * b\<close>.\<close>

definition fmod :: "real \<Rightarrow> real \<Rightarrow> real" where
  "fmod a b = a - real_of_int \<lfloor>a / b\<rfloor> * b"

text \<open>
  The spec's \<open>half\<close> for a text of \<open>len\<close> characters measured \<open>measured\<close> wide, to fit
  \<open>textMax\<close> with an ellipsis \<open>ellipsisWidth\<close> wide:
  \<open>avgCharWidth = measured / len\<close>,
  \<open>maxChars = floor((textMax - ellipsisWidth) / avgCharWidth)\<close>,
  \<open>half = (maxChars - 1) / 2\<close>.
\<close>

definition half_chars :: "real \<Rightarrow> real \<Rightarrow> real \<Rightarrow> nat \<Rightarrow> real" where
  "half_chars textMax ellipsisWidth measured len =
     (real_of_int \<lfloor>(textMax - ellipsisWidth) / (measured / real len)\<rfloor> - 1) / 2"

text \<open>
  A sample engine for the concrete cases: the default block height and padding, a
  surface 800 wide, an empty queue, empty caches and an empty log.
\<close>

definition engine0 :: engine where
  "engine0 =
     \<lparr>width = 800, blockHeight = 16, blockPaddingLeftRight = 4, blockPaddingTopBottom = 3,
      placeholderWidth = 10, fontColor = ''black'', queue = [], zoom = 2, positionX = 0,
      min_time = 0, max_time = 1000, patterns = Map.empty, ctxCachedSettings = Map.empty,
      ctxCachedCalls = Map.empty, ctx = [],
      heap = (\<lambda>_. \<lparr>rect_color = ''red'', rect_pattern = None, rect_x = 0, rect_y = 0,
                   rect_w = 100, rect_h = None\<rparr>),
      created = []\<rparr>"

section \<open>Theorems\<close>

text \<open>
  C4. For every x, w and surface width, \<open>renderBlock\<close> appends exactly one fill to the
  log, at \<open>truncatedX = clamp(x, 0, width)\<close> with the width
  \<open>clamp(w - (truncatedX - x), 0, width - truncatedX)\<close>; the drawn width is never
  negative, whatever the input; and a rectangle with x = -50 and w = 100 on a surface
  800 wide is drawn at x = 0 with width 50.
\<close>

theorem renderBlock_truncated:
  "renderBlock x y w h s =
     s\<lparr>ctx := ctx s @
        [FillRect (clamp x 0 (width s)) y
           (clamp (w - (clamp x 0 (width s) - x)) 0 (width s - clamp x 0 (width s)))
           (case h of None \<Rightarrow> blockHeight s | Some v \<Rightarrow> v)]\<rparr>
   \<and> 0 \<le> clamp (w - (clamp x 0 (width s) - x)) 0 (width s - clamp x 0 (width s))
   \<and> ctx (renderBlock (- 50) 0 100 (Some 10) (s\<lparr>width := 800\<rparr>))
       = ctx s @ [FillRect 0 0 50 10]"
  by (simp add: renderBlock_def clamp_def Let_def)

subsection \<open>Adding to the queue\<close>

lemma map_of_getQueue:
  "map_of (queue (getQueue p s)) k =
     (if k = p \<and> map_of (queue s) p = None then Some empty_bucket else map_of (queue s) k)"
  by (simp add: getQueue_def update_conv')

lemma map_of_modify_bucket:
  "map_of (queue (modify_bucket p f s)) k =
     (if k = p then map_option f (map_of (queue s) p) else map_of (queue s) k)"
  by (simp add: modify_bucket_def map_of_map_entry split: option.split)

lemma texts_at_addText:
  "texts_at (addText t x y w priority s) p =
     (if p = priority \<and> t \<noteq> [] \<and> 0 < w - 2 * blockPaddingLeftRight s - max 0 (- x)
      then texts_at s p @
        [\<lparr>text_text = t, text_x = x, text_y = y, text_w = w,
          textMaxWidth = w - 2 * blockPaddingLeftRight s - max 0 (- x)\<rparr>]
      else texts_at s p)"
  by (auto simp add: addText_def texts_at_def Let_def map_of_getQueue map_of_modify_bucket
        empty_bucket_def max_def split: option.split)

text \<open>
  C5. For every call of \<open>addText\<close>, the item it appends to the texts of its priority
  carries \<open>textMaxWidth = w - 2 * blockPaddingLeftRight - max(0, -x)\<close>; when that value
  is not positive the call changes nothing; and every text item found in the queue
  after the call either was there before or has a positive \<open>textMaxWidth\<close>.
\<close>

theorem addText_textMaxWidth:
  "(t \<noteq> [] \<and> 0 < w - 2 * blockPaddingLeftRight s - max 0 (- x) \<longrightarrow>
      texts_at (addText t x y w priority s) priority =
        texts_at s priority @
          [\<lparr>text_text = t, text_x = x, text_y = y, text_w = w,
            textMaxWidth = w - 2 * blockPaddingLeftRight s - max 0 (- x)\<rparr>])
   \<and> (w - 2 * blockPaddingLeftRight s - max 0 (- x) \<le> 0 \<longrightarrow> addText t x y w priority s = s)
   \<and> (\<forall>p item. item \<in> set (texts_at (addText t x y w priority s) p) \<longrightarrow>
         item \<in> set (texts_at s p) \<or> 0 < textMaxWidth item)"
proof (intro conjI impI allI)
  assume "t \<noteq> [] \<and> 0 < w - 2 * blockPaddingLeftRight s - max 0 (- x)"
  then show "texts_at (addText t x y w priority s) priority =
        texts_at s priority @
          [\<lparr>text_text = t, text_x = x, text_y = y, text_w = w,
            textMaxWidth = w - 2 * blockPaddingLeftRight s - max 0 (- x)\<rparr>]"
    by (simp add: texts_at_addText)
next
  assume "w - 2 * blockPaddingLeftRight s - max 0 (- x) \<le> 0"
  then show "addText t x y w priority s = s"
    by (simp add: addText_def Let_def max_def split: if_splits)
next
  fix p item
  assume "item \<in> set (texts_at (addText t x y w priority s) p)"
  then show "item \<in> set (texts_at s p) \<or> 0 < textMaxWidth item"
    by (auto simp add: texts_at_addText split: if_splits)
qed

theorem addText_textMaxWidth_witness:
  "texts_at (addText [0x61, 0x62] (- 3) 0 20 0 engine0) 0 =
     [\<lparr>text_text = [0x61, 0x62], text_x = - 3, text_y = 0, text_w = 20, textMaxWidth = 9\<rparr>]
   \<and> addText [0x61, 0x62] (- 3) 0 11 0 engine0 = engine0"
  using addText_textMaxWidth [of "[0x61, 0x62]" 20 engine0 "- 3" 0 0]
    addText_textMaxWidth [of "[0x61, 0x62]" 11 engine0 "- 3" 0 0]
  by (simp add: engine0_def texts_at_def)

text \<open>
  C10. A call of \<open>addText\<close> with the empty text changes nothing, whatever the geometry
  and the priority: no item is queued and no bucket is created.
\<close>

theorem addText_empty_text: "addText [] x y w priority s = s"
  by (simp add: addText_def)

subsection \<open>The drawing-state cache\<close>

text \<open>
  C7, as the code has it. \<open>setCtxValue(field, value)\<close> writes to the surface exactly when
  the cached value of the field differs from the value, and afterwards the cache holds
  the value; so a second, identical call does nothing, and two consecutive calls on a
  cache that did not hold the value make exactly one write. \<open>callCtx(op, value)\<close>
  invokes the operation exactly when the cached last argument of the operation differs
  from the value or the value is falsy (\<open>0\<close>, the empty string): a cached falsy argument
  counts as no cached argument.
\<close>

theorem ctx_cache_contract:
  "(ctxCachedSettings s field \<noteq> Some v \<longrightarrow>
      setCtxValue field v s =
        s\<lparr>ctx := ctx s @ [SetField field v],
          ctxCachedSettings := (ctxCachedSettings s)(field \<mapsto> v)\<rparr>)
   \<and> (ctxCachedSettings s field = Some v \<longrightarrow> setCtxValue field v s = s)
   \<and> ctxCachedSettings (setCtxValue field v s) field = Some v
   \<and> setCtxValue field v (setCtxValue field v s) = setCtxValue field v s
   \<and> (ctxCachedSettings s field \<noteq> Some v \<longrightarrow>
        ctx (setCtxValue field v (setCtxValue field v s)) = ctx s @ [SetField field v])
   \<and> (ctxCachedCalls s fn \<noteq> Some a \<or> \<not> truthy a \<longrightarrow>
        callCtx fn a s =
          s\<lparr>ctx := ctx s @ [CallFn fn a], ctxCachedCalls := (ctxCachedCalls s)(fn \<mapsto> a)\<rparr>)
   \<and> (ctxCachedCalls s fn = Some a \<and> truthy a \<longrightarrow> callCtx fn a s = s)"
  by (auto simp add: setCtxValue_def callCtx_def no_cached_call_def split: option.splits)

theorem ctx_cache_contract_witness:
  "ctx (setCtxValue ''fillStyle'' (Str ''red'') (setCtxValue ''fillStyle'' (Str ''red'') engine0))
     = [SetField ''fillStyle'' (Str ''red'')]
   \<and> ctx (callCtx ''rotate'' (Num 1) (callCtx ''rotate'' (Num 1) engine0))
     = [CallFn ''rotate'' (Num 1)]"
proof -
  let ?s = "callCtx ''rotate'' (Num 1) engine0"
  note first = ctx_cache_contract [of engine0 "''fillStyle''" "Str ''red''" "''rotate''" "Num 1"]
  note second = ctx_cache_contract [of ?s "''fillStyle''" "Str ''red''" "''rotate''" "Num 1"]
  have a: "ctxCachedSettings engine0 ''fillStyle'' \<noteq> Some (Str ''red'')"
    by (simp add: engine0_def)
  have b: "ctxCachedCalls engine0 ''rotate'' \<noteq> Some (Num 1)"
    by (simp add: engine0_def)
  have writes: "ctx (setCtxValue ''fillStyle'' (Str ''red'')
                  (setCtxValue ''fillStyle'' (Str ''red'') engine0))
                = ctx engine0 @ [SetField ''fillStyle'' (Str ''red'')]"
    using a first by blast
  have once: "?s = engine0\<lparr>ctx := ctx engine0 @ [CallFn ''rotate'' (Num 1)],
                     ctxCachedCalls := (ctxCachedCalls engine0)(''rotate'' \<mapsto> Num 1)\<rparr>"
    using b first by blast
  have "ctxCachedCalls ?s ''rotate'' = Some (Num 1) \<and> truthy (Num 1)"
    by (simp add: once)
  then have "callCtx ''rotate'' (Num 1) ?s = ?s"
    using second by blast
  then show ?thesis
    using writes once by (simp add: engine0_def)
qed

text \<open>
  C7 as stated fails for \<open>callCtx\<close>: after \<open>callCtx('rotate', 0)\<close> the cached last argument
  of \<open>rotate\<close> is \<open>0\<close>, and a second \<open>callCtx('rotate', 0)\<close> invokes the operation again
  although its argument does not differ from the cached one.
\<close>

theorem callCtx_falsy_counterexample:
  "ctxCachedCalls (callCtx ''rotate'' (Num 0) engine0) ''rotate'' = Some (Num 0)
   \<and> ctx (callCtx ''rotate'' (Num 0) (callCtx ''rotate'' (Num 0) engine0))
     = ctx (callCtx ''rotate'' (Num 0) engine0) @ [CallFn ''rotate'' (Num 0)]"
  by (simp add: callCtx_def no_cached_call_def engine0_def)

subsection \<open>Fitting a text\<close>

lemma slice_prefix:
  "0 \<le> n \<Longrightarrow> n \<le> int (length t) \<Longrightarrow> slice t 0 n = take (nat n) t"
  by (auto simp add: slice_def Let_def min_def)

lemma slice_suffix:
  "0 \<le> n \<Longrightarrow> n \<le> int (length t) \<Longrightarrow>
     slice t (int (length t) - n) (int (length t)) = drop (length t - nat n) t"
  by (auto simp add: slice_def Let_def min_def nat_diff_distrib')

lemma maxChars_less_length:
  assumes "t \<noteq> []" and "0 < tmw" and "tmw < tw" and "0 \<le> ph"
  shows "\<lfloor>(tmw - ph) / (tw / real (length t))\<rfloor> < int (length t)"
proof -
  have len: "0 < real (length t)" using assms(1) by simp
  have tw: "0 < tw" using assms(2,3) by simp
  have "(tmw - ph) / (tw / real (length t)) = (tmw - ph) / tw * real (length t)"
    by simp
  also have "\<dots> < 1 * real (length t)"
  proof (rule mult_strict_right_mono)
    show "(tmw - ph) / tw < 1" using tw assms(3,4) by simp
    show "0 < real (length t)" by (rule len)
  qed
  finally have "(tmw - ph) / (tw / real (length t)) < real_of_int (int (length t))"
    by simp
  then show ?thesis
    by (simp only: floor_less_iff)
qed

lemma half_bounds:
  fixes m :: int
  assumes "0 < (real_of_int m - 1) / 2" and "m < L"
  shows "0 \<le> \<lceil>(real_of_int m - 1) / 2\<rceil>" and "\<lceil>(real_of_int m - 1) / 2\<rceil> \<le> L"
    and "0 \<le> \<lfloor>(real_of_int m - 1) / 2\<rfloor>" and "\<lfloor>(real_of_int m - 1) / 2\<rfloor> \<le> L"
proof -
  have "(real_of_int m - 1) / 2 \<le> real_of_int (m - 1)"
    using assms(1) by simp
  then have c: "\<lceil>(real_of_int m - 1) / 2\<rceil> \<le> m - 1"
    by (simp only: ceiling_le_iff)
  have "0 < \<lceil>(real_of_int m - 1) / 2\<rceil>"
    using assms(1) by (simp only: zero_less_ceiling)
  then show "0 \<le> \<lceil>(real_of_int m - 1) / 2\<rceil>"
    by linarith
  show "\<lceil>(real_of_int m - 1) / 2\<rceil> \<le> L"
    using c assms(2) by linarith
  have "real_of_int 0 \<le> (real_of_int m - 1) / 2"
    using assms(1) by simp
  then show "0 \<le> \<lfloor>(real_of_int m - 1) / 2\<rfloor>"
    by (simp only: le_floor_iff)
  have "\<lfloor>(real_of_int m - 1) / 2\<rfloor> \<le> \<lceil>(real_of_int m - 1) / 2\<rceil>"
    by (rule floor_le_ceiling)
  then show "\<lfloor>(real_of_int m - 1) / 2\<rfloor> \<le> L"
    using c assms(2) by linarith
qed

lemma fittedText_truncated:
  assumes "text_text item \<noteq> []" and "0 < textMaxWidth item" and "0 \<le> placeholderWidth s"
    and "textMaxWidth item < tw"
    and "0 < half_chars (textMaxWidth item) (placeholderWidth s) tw (length (text_text item))"
  shows "fittedText s tw item =
           take (nat \<lceil>half_chars (textMaxWidth item) (placeholderWidth s) tw
                         (length (text_text item))\<rceil>) (text_text item)
           @ [ellipsis] @
           drop (length (text_text item) -
                 nat \<lfloor>half_chars (textMaxWidth item) (placeholderWidth s) tw
                         (length (text_text item))\<rfloor>) (text_text item)"
    and "nat \<lceil>half_chars (textMaxWidth item) (placeholderWidth s) tw
                 (length (text_text item))\<rceil> \<le> length (text_text item)"
    and "nat \<lfloor>half_chars (textMaxWidth item) (placeholderWidth s) tw
                 (length (text_text item))\<rfloor> \<le> length (text_text item)"
proof -
  let ?t = "text_text item"
  let ?m = "\<lfloor>(textMaxWidth item - placeholderWidth s) / (tw / real (length ?t))\<rfloor>"
  let ?h = "(real_of_int ?m - 1) / 2"
  have h: "half_chars (textMaxWidth item) (placeholderWidth s) tw (length ?t) = ?h"
    by (simp only: half_chars_def)
  have m: "?m < int (length ?t)"
    by (rule maxChars_less_length [OF assms(1) assms(2) assms(4) assms(3)])
  have pos: "0 < ?h" using assms(5) by (simp only: h)
  note b = half_bounds [OF pos m]
  have unfolded: "fittedText s tw item =
          slice ?t 0 \<lceil>?h\<rceil> @ [ellipsis] @ slice ?t (int (length ?t) - \<lfloor>?h\<rfloor>) (int (length ?t))"
    using assms(4) pos by (simp only: fittedText_def Let_def if_True)
  have lead: "slice ?t 0 \<lceil>?h\<rceil> = take (nat \<lceil>?h\<rceil>) ?t"
    using b(1) b(2) by (rule slice_prefix)
  have trail: "slice ?t (int (length ?t) - \<lfloor>?h\<rfloor>) (int (length ?t)) = drop (length ?t - nat \<lfloor>?h\<rfloor>) ?t"
    using b(3) b(4) by (rule slice_suffix)
  show "fittedText s tw item =
           take (nat \<lceil>half_chars (textMaxWidth item) (placeholderWidth s) tw (length ?t)\<rceil>) ?t
           @ [ellipsis] @
           drop (length ?t - nat \<lfloor>half_chars (textMaxWidth item) (placeholderWidth s) tw (length ?t)\<rfloor>) ?t"
    by (simp only: h unfolded lead trail)
  show "nat \<lceil>half_chars (textMaxWidth item) (placeholderWidth s) tw (length ?t)\<rceil> \<le> length ?t"
    using b(2) by (simp only: h; linarith)
  show "nat \<lfloor>half_chars (textMaxWidth item) (placeholderWidth s) tw (length ?t)\<rfloor> \<le> length ?t"
    using b(4) by (simp only: h; linarith)
qed

lemma fittedText_suppressed:
  assumes "textMaxWidth item < tw"
    and "half_chars (textMaxWidth item) (placeholderWidth s) tw (length (text_text item)) \<le> 0"
  shows "fittedText s tw item = []"
  using assms by (simp add: fittedText_def half_chars_def Let_def)

lemma fittedText_fits: "tw \<le> textMaxWidth item \<Longrightarrow> fittedText s tw item = text_text item"
  by (simp add: fittedText_def Let_def)


lemma logged_since_append: "ctx s' = ctx s @ ops \<Longrightarrow> logged_since s s' = ops"
  by (simp add: logged_since_def)

text \<open>
  C6, as the code has it. Take a text item as \<open>addText\<close> queues it (a non-empty text, a
  positive \<open>textMaxWidth\<close>) and an ellipsis that is not negatively wide, and let
  \<open>half = (maxChars - 1) / 2\<close> with
  \<open>maxChars = floor((textMaxWidth - ellipsisWidth) / avgCharWidth)\<close> and
  \<open>avgCharWidth = measuredWidth / len\<close>. When the measured width exceeds \<open>textMaxWidth\<close>
  and \<open>half > 0\<close>, the string drawn is the first \<open>ceil(half)\<close> characters, one ellipsis,
  and the last \<open>floor(half)\<close> characters; the leading count is at least the trailing
  count; the result holds one ellipsis more than the characters kept, so exactly one when
  the label has none. When the measured width exceeds \<open>textMaxWidth\<close> and \<open>half \<le> 0\<close>,
  nothing is drawn. A text that fits is drawn unmodified.
\<close>

theorem renderText_fitted:
  assumes "text_text item \<noteq> []" and "0 < textMaxWidth item" and "0 \<le> placeholderWidth s"
  shows
    "(textMaxWidth item < measureText (text_text item) \<and>
      0 < half_chars (textMaxWidth item) (placeholderWidth s) (measureText (text_text item))
            (length (text_text item)) \<longrightarrow>
        logged_since s (renderText measureText item s) =
          [FillText (take (nat \<lceil>half_chars (textMaxWidth item) (placeholderWidth s) (measureText (text_text item))
            (length (text_text item))\<rceil>) (text_text item) @ [ellipsis] @ drop (length (text_text item) - nat \<lfloor>half_chars (textMaxWidth item) (placeholderWidth s) (measureText (text_text item))
            (length (text_text item))\<rfloor>) (text_text item)) ((if text_x item < 0 then 0 else text_x item) + blockPaddingLeftRight s) (text_y item + blockHeight s - blockPaddingTopBottom s)]
        \<and> length (take (nat \<lceil>half_chars (textMaxWidth item) (placeholderWidth s) (measureText (text_text item))
            (length (text_text item))\<rceil>) (text_text item)) = nat \<lceil>half_chars (textMaxWidth item) (placeholderWidth s) (measureText (text_text item))
            (length (text_text item))\<rceil>
        \<and> length (drop (length (text_text item) - nat \<lfloor>half_chars (textMaxWidth item) (placeholderWidth s) (measureText (text_text item))
            (length (text_text item))\<rfloor>) (text_text item)) = nat \<lfloor>half_chars (textMaxWidth item) (placeholderWidth s) (measureText (text_text item))
            (length (text_text item))\<rfloor>
        \<and> nat \<lfloor>half_chars (textMaxWidth item) (placeholderWidth s) (measureText (text_text item))
            (length (text_text item))\<rfloor> \<le> nat \<lceil>half_chars (textMaxWidth item) (placeholderWidth s) (measureText (text_text item))
            (length (text_text item))\<rceil>
        \<and> count_list (take (nat \<lceil>half_chars (textMaxWidth item) (placeholderWidth s) (measureText (text_text item))
            (length (text_text item))\<rceil>) (text_text item) @ [ellipsis] @ drop (length (text_text item) - nat \<lfloor>half_chars (textMaxWidth item) (placeholderWidth s) (measureText (text_text item))
            (length (text_text item))\<rfloor>) (text_text item)) ellipsis =
            1 + count_list (take (nat \<lceil>half_chars (textMaxWidth item) (placeholderWidth s) (measureText (text_text item))
            (length (text_text item))\<rceil>) (text_text item)) ellipsis + count_list (drop (length (text_text item) - nat \<lfloor>half_chars (textMaxWidth item) (placeholderWidth s) (measureText (text_text item))
            (length (text_text item))\<rfloor>) (text_text item)) ellipsis
        \<and> (ellipsis \<notin> set (text_text item) \<longrightarrow>
             count_list (take (nat \<lceil>half_chars (textMaxWidth item) (placeholderWidth s) (measureText (text_text item))
            (length (text_text item))\<rceil>) (text_text item) @ [ellipsis] @ drop (length (text_text item) - nat \<lfloor>half_chars (textMaxWidth item) (placeholderWidth s) (measureText (text_text item))
            (length (text_text item))\<rfloor>) (text_text item)) ellipsis = 1))
     \<and> (textMaxWidth item < measureText (text_text item) \<and>
        half_chars (textMaxWidth item) (placeholderWidth s) (measureText (text_text item))
            (length (text_text item)) \<le> 0 \<longrightarrow>
          renderText measureText item s = s)
     \<and> (measureText (text_text item) \<le> textMaxWidth item \<longrightarrow>
          logged_since s (renderText measureText item s) = [FillText (text_text item) ((if text_x item < 0 then 0 else text_x item) + blockPaddingLeftRight s) (text_y item + blockHeight s - blockPaddingTopBottom s)])"
proof (intro conjI impI)
  let ?tw = "measureText (text_text item)"
  let ?H = "half_chars (textMaxWidth item) (placeholderWidth s) ?tw (length (text_text item))"
  let ?lead = "take (nat \<lceil>?H\<rceil>) (text_text item)"
  let ?trail = "drop (length (text_text item) - nat \<lfloor>?H\<rfloor>) (text_text item)"
  {
    assume a: "textMaxWidth item < ?tw \<and> 0 < ?H"
    note f = fittedText_truncated [OF assms(1) assms(2) assms(3) conjunct1 [OF a] conjunct2 [OF a]]
    have ne: "fittedText s ?tw item \<noteq> []"
      by (simp only: f(1)) simp
    show "logged_since s (renderText measureText item s) =
          [FillText (?lead @ [ellipsis] @ ?trail) ((if text_x item < 0 then 0 else text_x item) + blockPaddingLeftRight s) (text_y item + blockHeight s - blockPaddingTopBottom s)]"
      using ne by (simp add: renderText_def Let_def logged_since_def f(1))
    show "length ?lead = nat \<lceil>?H\<rceil>"
      using f(2) by simp
    show "length ?trail = nat \<lfloor>?H\<rfloor>"
      using f(3) by simp
    show "nat \<lfloor>?H\<rfloor> \<le> nat \<lceil>?H\<rceil>"
      by (rule nat_mono) (rule floor_le_ceiling)
    show c: "count_list (?lead @ [ellipsis] @ ?trail) ellipsis =
            1 + count_list ?lead ellipsis + count_list ?trail ellipsis"
      by simp
    {
      assume "ellipsis \<notin> set (text_text item)"
      then have "ellipsis \<notin> set ?lead" and "ellipsis \<notin> set ?trail"
        by (auto dest: in_set_takeD in_set_dropD)
      then show "count_list (?lead @ [ellipsis] @ ?trail) ellipsis = 1"
        by (simp add: count_list_0_iff)
    }
  }
  {
    assume "textMaxWidth item < ?tw \<and> ?H \<le> 0"
    then have "fittedText s ?tw item = []"
      by (intro fittedText_suppressed) simp_all
    then show "renderText measureText item s = s"
      by (simp add: renderText_def Let_def)
  }
  {
    assume "?tw \<le> textMaxWidth item"
    then have "fittedText s ?tw item = text_text item"
      by (rule fittedText_fits)
    then show "logged_since s (renderText measureText item s) = [FillText (text_text item) ((if text_x item < 0 then 0 else text_x item) + blockPaddingLeftRight s) (text_y item + blockHeight s - blockPaddingTopBottom s)]"
      using assms(1) by (simp add: renderText_def Let_def logged_since_def)
  }
qed


theorem renderText_fitted_witness:
  "logged_since engine0
     (renderText (\<lambda>t. 10 * real (length t))
        \<lparr>text_text = [0x61, 0x62, 0x63, 0x64, 0x65, 0x66, 0x67, 0x68, 0x69, 0x6A],
         text_x = - 2, text_y = 0, text_w = 81, textMaxWidth = 75\<rparr> engine0)
   = [FillText [0x61, 0x62, 0x63, ellipsis, 0x69, 0x6A] 4 13]
   \<and> renderText (\<lambda>t. 10 * real (length t))
        \<lparr>text_text = [0x61, 0x62, 0x63, 0x64, 0x65, 0x66, 0x67, 0x68, 0x69, 0x6A],
         text_x = 0, text_y = 0, text_w = 33, textMaxWidth = 25\<rparr> engine0 = engine0
   \<and> logged_since engine0
     (renderText (\<lambda>t. 10 * real (length t))
        \<lparr>text_text = [0x61, 0x62], text_x = 5, text_y = 0, text_w = 33, textMaxWidth = 25\<rparr> engine0)
   = [FillText [0x61, 0x62] 9 13]"
proof -
  let ?m = "\<lambda>t :: jsstring. 10 * real (length t)"
  let ?long = "[0x61, 0x62, 0x63, 0x64, 0x65, 0x66, 0x67, 0x68, 0x69, 0x6A] :: jsstring"
  let ?a = "\<lparr>text_text = ?long, text_x = - 2, text_y = 0, text_w = 81, textMaxWidth = 75\<rparr>"
  let ?b = "\<lparr>text_text = ?long, text_x = 0, text_y = 0, text_w = 33, textMaxWidth = 25\<rparr>"
  let ?c = "\<lparr>text_text = [0x61, 0x62] :: jsstring, text_x = 5, text_y = 0, text_w = 33,
             textMaxWidth = 25\<rparr>"
  have p: "0 \<le> placeholderWidth engine0" by (simp add: engine0_def)
  have "logged_since engine0 (renderText ?m ?a engine0)
          = [FillText [0x61, 0x62, 0x63, ellipsis, 0x69, 0x6A] 4 13]"
    using renderText_fitted [of ?a engine0 ?m] p by (simp add: engine0_def half_chars_def)
  moreover have "renderText ?m ?b engine0 = engine0"
    using renderText_fitted [of ?b engine0 ?m] p by (simp add: engine0_def half_chars_def)
  moreover have "logged_since engine0 (renderText ?m ?c engine0) = [FillText [0x61, 0x62] 9 13]"
    using renderText_fitted [of ?c engine0 ?m] p by (simp add: engine0_def)
  ultimately show ?thesis by simp
qed

text \<open>
  C6 as stated fails on a label that holds an ellipsis itself: five ellipsis characters,
  each measured 10 wide, to fit 45 with an ellipsis 10 wide, give \<open>maxChars = 3\<close> and
  \<open>half = 1\<close>, and the string drawn holds three ellipsis characters, not exactly one.
\<close>

theorem renderText_ellipsis_counterexample:
  "logged_since engine0
     (renderText (\<lambda>t. 10 * real (length t))
        \<lparr>text_text = [ellipsis, ellipsis, ellipsis, ellipsis, ellipsis],
         text_x = 0, text_y = 0, text_w = 53, textMaxWidth = 45\<rparr> engine0)
   = [FillText [ellipsis, ellipsis, ellipsis] 4 13]
   \<and> count_list [ellipsis, ellipsis, ellipsis] ellipsis = 3"
  by (simp add: renderText_def fittedText_def slice_def Let_def logged_since_def engine0_def)

subsection \<open>Anchoring a pattern\<close>

lemma fmod_period:
  assumes "b \<noteq> 0" and "c \<noteq> 0"
  shows "fmod ((a + real_of_int k * b / c) * c) b = fmod (a * c) b"
proof -
  have e: "(a + real_of_int k * b / c) * c = a * c + real_of_int k * b"
    using assms(2) by (simp add: field_simps)
  have "\<lfloor>(a * c + real_of_int k * b) / b\<rfloor> = \<lfloor>a * c / b + real_of_int k\<rfloor>"
    using assms(1) by (simp add: field_simps)
  also have "\<dots> = \<lfloor>a * c / b\<rfloor> + k"
    by simp
  finally show ?thesis
    by (simp add: fmod_def e algebra_simps)
qed

lemma ctx_renderRect_pattern:
  "ctx (renderRect (Some p) m q s) =
     ctx s @
       [SetTransform (pat_pattern p)
          (MatrixTranslate m
             (fmod (rect_x (heap s q) * pat_scale p) (pat_width p))
             (rect_y (heap s q) * pat_scale p)),
        FillRect (clamp (rect_x (heap s q)) 0 (width s)) (rect_y (heap s q))
          (clamp (rect_w (heap s q) - (clamp (rect_x (heap s q)) 0 (width s) - rect_x (heap s q))) 0
             (width s - clamp (rect_x (heap s q)) 0 (width s)))
          (case rect_h (heap s q) of None \<Rightarrow> blockHeight s | Some v \<Rightarrow> v)]"
  by (simp add: renderRect_def renderBlock_def Let_def fmod_def clamp_def split: option.split)

text \<open>
  C2, as the code has it, for a pattern whose tile width and scale are not zero. A
  pattern group of the rect queue whose name is not \<open>'none'\<close> and is registered sets the
  pattern as fill style once and renders each of its rectangles with the pattern's
  matrix: the identity, scaled by \<open>1 / s\<close> when the scale \<open>s\<close> is not 1. For each rectangle
  the pattern's transform is set to that matrix translated by \<open>(rect.x * s) mod w\<close>
  horizontally (\<open>w\<close> the tile width) and by \<open>rect.y * s\<close> vertically, and then the block
  is filled. So two rectangles whose x differ by an integer multiple of \<open>w / s\<close> get the
  same horizontal translation, and the same transform when their y are equal.
\<close>

theorem renderRect_pattern_anchor:
  assumes "pat_width p \<noteq> 0" and "pat_scale p \<noteq> 0"
  shows
  "(name \<noteq> ''none'' \<and> patterns s name = Some p \<longrightarrow>
      renderPattern (name, colors) s =
        Returns
          (fold (renderColor (Some p)
                  (if pat_scale p \<noteq> 1
                   then MatrixScale NewMatrix (1 / pat_scale p) (1 / pat_scale p) else NewMatrix))
            (Object_entries colors)
            (s\<lparr>ctx := ctx s @ [SetField ''fillStyle'' (PatternValue (pat_pattern p))],
               ctxCachedSettings := (ctxCachedSettings s)(''fillStyle'' \<mapsto> Str name)\<rparr>)))
   \<and> renderColor (Some p) m (c, refs) s = fold (renderRect (Some p) m) refs s
   \<and> logged_since s (renderRect (Some p) m r s) =
        [SetTransform (pat_pattern p)
           (MatrixTranslate m
              (fmod (rect_x (heap s r) * pat_scale p) (pat_width p))
              (rect_y (heap s r) * pat_scale p)),
         FillRect (clamp (rect_x (heap s r)) 0 (width s)) (rect_y (heap s r))
           (clamp (rect_w (heap s r) - (clamp (rect_x (heap s r)) 0 (width s) - rect_x (heap s r))) 0
              (width s - clamp (rect_x (heap s r)) 0 (width s)))
           (case rect_h (heap s r) of None \<Rightarrow> blockHeight s | Some v \<Rightarrow> v)]
   \<and> (rect_x (heap s r') = rect_x (heap s r) + real_of_int k * pat_width p / pat_scale p \<longrightarrow>
        fmod (rect_x (heap s r') * pat_scale p) (pat_width p) =
        fmod (rect_x (heap s r) * pat_scale p) (pat_width p)
        \<and> (rect_y (heap s r') = rect_y (heap s r) \<longrightarrow>
             hd (logged_since s (renderRect (Some p) m r' s)) =
             hd (logged_since s (renderRect (Some p) m r s))))"
proof (intro conjI impI)
  assume "name \<noteq> ''none'' \<and> patterns s name = Some p"
  then show "renderPattern (name, colors) s =
      Returns
        (fold (renderColor (Some p)
                (if pat_scale p \<noteq> 1
                 then MatrixScale NewMatrix (1 / pat_scale p) (1 / pat_scale p) else NewMatrix))
          (Object_entries colors)
          (s\<lparr>ctx := ctx s @ [SetField ''fillStyle'' (PatternValue (pat_pattern p))],
             ctxCachedSettings := (ctxCachedSettings s)(''fillStyle'' \<mapsto> Str name)\<rparr>))"
    by (simp add: renderPattern_def get_property_def Let_def)
next
  show "renderColor (Some p) m (c, refs) s = fold (renderRect (Some p) m) refs s"
    by (simp add: renderColor_def)
next
  show "logged_since s (renderRect (Some p) m r s) =
        [SetTransform (pat_pattern p)
           (MatrixTranslate m
              (fmod (rect_x (heap s r) * pat_scale p) (pat_width p))
              (rect_y (heap s r) * pat_scale p)),
         FillRect (clamp (rect_x (heap s r)) 0 (width s)) (rect_y (heap s r))
           (clamp (rect_w (heap s r) - (clamp (rect_x (heap s r)) 0 (width s) - rect_x (heap s r))) 0
              (width s - clamp (rect_x (heap s r)) 0 (width s)))
           (case rect_h (heap s r) of None \<Rightarrow> blockHeight s | Some v \<Rightarrow> v)]"
    by (rule logged_since_append) (rule ctx_renderRect_pattern)
next
  assume a: "rect_x (heap s r') = rect_x (heap s r) + real_of_int k * pat_width p / pat_scale p"
  show same: "fmod (rect_x (heap s r') * pat_scale p) (pat_width p)
             = fmod (rect_x (heap s r) * pat_scale p) (pat_width p)"
    using fmod_period [OF assms, of "rect_x (heap s r)" k] a by simp
  assume "rect_y (heap s r') = rect_y (heap s r)"
  then show "hd (logged_since s (renderRect (Some p) m r' s)) =
      hd (logged_since s (renderRect (Some p) m r s))"
    using same by (simp add: logged_since_def ctx_renderRect_pattern)
qed

theorem renderRect_pattern_anchor_witness:
  "hd (logged_since
         (engine0\<lparr>heap := (heap engine0)
            (2 := \<lparr>rect_color = ''red'', rect_pattern = Some ''dots'', rect_x = 100, rect_y = 0,
                   rect_w = 100, rect_h = None\<rparr>)\<rparr>)
         (renderRect (Some \<lparr>pat_scale = 1, pat_width = 10, pat_pattern = 0\<rparr>) NewMatrix 2
            (engine0\<lparr>heap := (heap engine0)
               (2 := \<lparr>rect_color = ''red'', rect_pattern = Some ''dots'', rect_x = 100, rect_y = 0,
                      rect_w = 100, rect_h = None\<rparr>)\<rparr>)))
   = hd (logged_since
         (engine0\<lparr>heap := (heap engine0)
            (2 := \<lparr>rect_color = ''red'', rect_pattern = Some ''dots'', rect_x = 100, rect_y = 0,
                   rect_w = 100, rect_h = None\<rparr>)\<rparr>)
         (renderRect (Some \<lparr>pat_scale = 1, pat_width = 10, pat_pattern = 0\<rparr>) NewMatrix 1
            (engine0\<lparr>heap := (heap engine0)
               (2 := \<lparr>rect_color = ''red'', rect_pattern = Some ''dots'', rect_x = 100, rect_y = 0,
                      rect_w = 100, rect_h = None\<rparr>)\<rparr>)))
   \<and> logged_since
         (engine0\<lparr>heap := (heap engine0)
            (2 := \<lparr>rect_color = ''red'', rect_pattern = Some ''dots'', rect_x = 100, rect_y = 0,
                   rect_w = 100, rect_h = None\<rparr>)\<rparr>)
         (renderRect (Some \<lparr>pat_scale = 1, pat_width = 10, pat_pattern = 0\<rparr>) NewMatrix 1
            (engine0\<lparr>heap := (heap engine0)
               (2 := \<lparr>rect_color = ''red'', rect_pattern = Some ''dots'', rect_x = 100, rect_y = 0,
                      rect_w = 100, rect_h = None\<rparr>)\<rparr>))
     = [SetTransform 0 (MatrixTranslate NewMatrix 0 0), FillRect 0 0 100 16]"
proof -
  let ?s = "engine0\<lparr>heap := (heap engine0)
            (2 := \<lparr>rect_color = ''red'', rect_pattern = Some ''dots'', rect_x = 100, rect_y = 0,
                   rect_w = 100, rect_h = None\<rparr>)\<rparr>"
  let ?p = "\<lparr>pat_scale = 1, pat_width = 10, pat_pattern = 0\<rparr>"
  have nz: "pat_width ?p \<noteq> 0" "pat_scale ?p \<noteq> 0"
    by simp_all
  note w = renderRect_pattern_anchor [OF nz, where s = ?s and m = NewMatrix and r = 1
      and r' = 2 and k = 10 and name = "''dots''" and colors = "[]" and c = "''red''" and refs = "[]"]
  have pre: "rect_x (heap ?s 2) = rect_x (heap ?s 1) + real_of_int 10 * pat_width ?p / pat_scale ?p"
    and y: "rect_y (heap ?s 2) = rect_y (heap ?s 1)"
    by (simp_all add: engine0_def)
  have same: "hd (logged_since ?s (renderRect (Some ?p) NewMatrix 2 ?s)) =
        hd (logged_since ?s (renderRect (Some ?p) NewMatrix 1 ?s))"
    using w pre y by blast
  have "logged_since ?s (renderRect (Some ?p) NewMatrix 1 ?s) =
        [SetTransform (pat_pattern ?p)
           (MatrixTranslate NewMatrix
              (fmod (rect_x (heap ?s 1) * pat_scale ?p) (pat_width ?p))
              (rect_y (heap ?s 1) * pat_scale ?p)),
         FillRect (clamp (rect_x (heap ?s 1)) 0 (width ?s)) (rect_y (heap ?s 1))
           (clamp (rect_w (heap ?s 1) - (clamp (rect_x (heap ?s 1)) 0 (width ?s) - rect_x (heap ?s 1))) 0
              (width ?s - clamp (rect_x (heap ?s 1)) 0 (width ?s)))
           (case rect_h (heap ?s 1) of None \<Rightarrow> blockHeight ?s | Some v \<Rightarrow> v)]"
    using w by blast
  then have "logged_since ?s (renderRect (Some ?p) NewMatrix 1 ?s)
     = [SetTransform 0 (MatrixTranslate NewMatrix 0 0), FillRect 0 0 100 16]"
    by (simp add: engine0_def fmod_def clamp_def)
  then show ?thesis
    using same by simp
qed

text \<open>
  C2 as stated fails when the scale is not 1. A rectangle at \<open>x = 6\<close>, \<open>y = 3\<close> with a
  registered pattern of scale 2 and tile width 10 is queued and resolved: the transform
  is translated horizontally by \<open>(6 * 2) mod 10 = 2\<close>, not by
  \<open>(6 * 2) mod (10 * 2) = 12\<close>.
\<close>

theorem pattern_anchor_counterexample:
  "map_outcome ctx
     (after
        (addRect 1 0
           (engine0\<lparr>heap := (heap engine0)
               (1 := \<lparr>rect_color = ''red'', rect_pattern = Some ''stripes'', rect_x = 6,
                      rect_y = 3, rect_w = 100, rect_h = None\<rparr>),
              patterns := [''stripes'' \<mapsto> \<lparr>pat_scale = 2, pat_width = 10, pat_pattern = 0\<rparr>]\<rparr>))
        (resolveQueue (\<lambda>t. 0)))
   = Returns
       [SetField ''fillStyle'' (PatternValue 0),
        SetTransform 0 (MatrixTranslate (MatrixScale NewMatrix (1 / 2) (1 / 2)) 2 6),
        FillRect 6 3 100 16,
        SetField ''fillStyle'' (Str ''black'')]
   \<and> fmod (6 * 2) (10 * 2) = 12"
  by (simp add: engine0_def addRect_def getQueue_def modify_bucket_def
    empty_bucket_def push_rect_def push_color_def get_property_def inherited_def
    prototype_names_def pattern_or_none_def Let_def
    resolveQueue_def Object_keys_def array_index_def array_sort_def toString_def digit_char_def
    renderPriority_def renderRects_def Object_entries_def string_index_def is_digit_def
    renderPattern_def renderColor_def renderRect_def renderBlock_def setCtxValue_def
    renderTexts_def renderStrokes_def fmod_def)

subsection \<open>Adding a rectangle\<close>










text \<open>
  A colour that plain objects inherit, here \<open>constructor\<close>: the pattern is written into the
  caller's object and the bucket and its map for \<open>'none'\<close> are created, but no list is
  made for the colour and the call throws.
\<close>

lemma addRect_inherited_colour:
  "addRect 7 0
     (engine0\<lparr>heap := (heap engine0)
        (7 := \<lparr>rect_color = ''constructor'', rect_pattern = None, rect_x = 0, rect_y = 0,
               rect_w = 100, rect_h = None\<rparr>)\<rparr>)
   = TypeError
       (engine0\<lparr>heap := (heap engine0)
          (7 := \<lparr>rect_color = ''constructor'', rect_pattern = Some ''none'', rect_x = 0,
                 rect_y = 0, rect_w = 100, rect_h = None\<rparr>),
         queue := [(0, \<lparr>q_text = [], q_stroke = [], q_rect = [(''none'', [])]\<rparr>)]\<rparr>)"
  by (simp add: addRect_def getQueue_def modify_bucket_def empty_bucket_def push_rect_def
      push_color_def get_property_def inherited_def prototype_names_def pattern_or_none_def
      engine0_def Let_def)

subsection \<open>Panning\<close>

text \<open>
  C3. For every starting \<open>positionX\<close> and every delta, whenever
  \<open>max - min \<ge> width / zoom\<close> (the real view; \<open>zoom\<close> is not zero),
  \<open>tryToChangePosition\<close> leaves \<open>positionX\<close> in \<open>[min, max - width / zoom]\<close>: a shift that
  stays inside is applied as it is, and a shift that would pass a boundary is snapped to
  that edge (\<open>min\<close>, or \<open>max - width / zoom\<close>) instead of being refused. Nothing else of
  the engine changes.
\<close>

theorem tryToChangePosition_clamped:
  assumes "zoom s \<noteq> 0" and "max_time s - min_time s \<ge> width s / zoom s"
  shows "tryToChangePosition d s =
           s\<lparr>positionX := clamp (positionX s + d) (min_time s) (max_time s - width s / zoom s)\<rparr>
         \<and> min_time s \<le> positionX (tryToChangePosition d s)
         \<and> positionX (tryToChangePosition d s) \<le> max_time s - width s / zoom s
         \<and> (positionX s + d < min_time s \<longrightarrow> positionX (tryToChangePosition d s) = min_time s)
         \<and> (positionX s + d + width s / zoom s > max_time s \<longrightarrow>
              positionX (tryToChangePosition d s) = max_time s - width s / zoom s)
         \<and> (min_time s \<le> positionX s + d \<and> positionX s + d + width s / zoom s \<le> max_time s \<longrightarrow>
              positionX (tryToChangePosition d s) = positionX s + d)"
  using assms(2)
  by (auto simp add: tryToChangePosition_def getRealView_def setPositionX_def clamp_def Let_def
        min_def max_def)

theorem tryToChangePosition_clamped_witness:
  "zoom engine0 \<noteq> 0 \<and> max_time engine0 - min_time engine0 \<ge> width engine0 / zoom engine0
   \<and> width engine0 / zoom engine0 = 400
   \<and> positionX (tryToChangePosition 700 engine0) = 600
   \<and> positionX (tryToChangePosition (- 5) engine0) = 0
   \<and> positionX (tryToChangePosition 25 engine0) = 25"
proof -
  have z: "zoom engine0 \<noteq> 0" by (simp add: engine0_def)
  have v: "max_time engine0 - min_time engine0 \<ge> width engine0 / zoom engine0"
    by (simp add: engine0_def)
  show ?thesis
    using z v tryToChangePosition_clamped [OF z v, of 700]
      tryToChangePosition_clamped [OF z v, of "- 5"]
      tryToChangePosition_clamped [OF z v, of 25]
    by (simp add: engine0_def clamp_def)
qed

subsection \<open>Registering a default pattern\<close>

lemma createCachedDefaultPattern_absent:
  assumes "patterns s (dp_name d) = None" and "\<not> inherited (dp_name d)"
    and "table (dp_type d) = Some mk"
  shows "createCachedDefaultPattern table d s =
           Returns
             (s\<lparr>created := created s @ [(dp_name d, cp_pattern (mk (dp_config d) s))],
                patterns := (patterns s)(dp_name d \<mapsto>
                  \<lparr>pat_scale = (case cp_scale (mk (dp_config d) s) of None \<Rightarrow> 1 | Some v \<Rightarrow> v),
                   pat_width = (case cp_width (mk (dp_config d) s) of None \<Rightarrow> 10 | Some v \<Rightarrow> v),
                   pat_pattern = cp_pattern (mk (dp_config d) s)\<rparr>)\<rparr>)"
proof -
  have "dp_name d \<noteq> ''__proto__''"
    using assms(2) by (auto simp add: inherited_def prototype_names_def)
  then show ?thesis
    using assms
    by (simp add: createCachedDefaultPattern_def createDefaultPattern_def createBlockPattern_def
        get_property_def Let_def)
qed

lemma createCachedDefaultPattern_skipped:
  "patterns s (dp_name d) \<noteq> None \<or> inherited (dp_name d) \<or> table (dp_type d) = None \<Longrightarrow>
     createCachedDefaultPattern table d s = Returns s"
  by (auto simp add: createCachedDefaultPattern_def createDefaultPattern_def get_property_def
        split: option.split)

lemma createCachedDefaultPattern_idem:
  "after (createCachedDefaultPattern table d s) (createCachedDefaultPattern table d) =
     createCachedDefaultPattern table d s"
proof (cases "patterns s (dp_name d) = None \<and> \<not> inherited (dp_name d) \<and> table (dp_type d) \<noteq> None")
  case True
  then obtain mk where mk: "table (dp_type d) = Some mk"
    by auto
  have first: "createCachedDefaultPattern table d s =
           Returns
             (s\<lparr>created := created s @ [(dp_name d, cp_pattern (mk (dp_config d) s))],
                patterns := (patterns s)(dp_name d \<mapsto>
                  \<lparr>pat_scale = (case cp_scale (mk (dp_config d) s) of None \<Rightarrow> 1 | Some v \<Rightarrow> v),
                   pat_width = (case cp_width (mk (dp_config d) s) of None \<Rightarrow> 10 | Some v \<Rightarrow> v),
                   pat_pattern = cp_pattern (mk (dp_config d) s)\<rparr>)\<rparr>)"
    using True mk by (intro createCachedDefaultPattern_absent) simp_all
  show ?thesis
    by (simp add: first) (rule createCachedDefaultPattern_skipped, simp)
next
  case False
  then have "createCachedDefaultPattern table d s = Returns s"
    by (intro createCachedDefaultPattern_skipped) auto
  then show ?thesis
    by simp
qed

text \<open>
  C8, as the code has it. Registering a default-pattern descriptor twice through
  \<open>createCachedDefaultPattern\<close> leaves the engine as one registration does. When the kind
  is known and the name is neither registered yet nor a property name that plain objects
  inherit, the two calls together invoke the creator exactly once, and the registry
  holds under the name the pattern built by that one invocation. When the name is
  registered, or inherited, or the kind is unknown, the call is skipped and creates
  nothing. In every case the two calls create at most one pattern.
\<close>

theorem createCachedDefaultPattern_once:
  "after (createCachedDefaultPattern table d s) (createCachedDefaultPattern table d) =
     createCachedDefaultPattern table d s
   \<and> (patterns s (dp_name d) = None \<and> \<not> inherited (dp_name d) \<and> table (dp_type d) = Some mk \<longrightarrow>
        created (state_of (after (createCachedDefaultPattern table d s)
                   (createCachedDefaultPattern table d))) =
          created s @ [(dp_name d, cp_pattern (mk (dp_config d) s))]
        \<and> patterns (state_of (after (createCachedDefaultPattern table d s)
                      (createCachedDefaultPattern table d))) (dp_name d) =
          Some \<lparr>pat_scale = (case cp_scale (mk (dp_config d) s) of None \<Rightarrow> 1 | Some v \<Rightarrow> v),
                pat_width = (case cp_width (mk (dp_config d) s) of None \<Rightarrow> 10 | Some v \<Rightarrow> v),
                pat_pattern = cp_pattern (mk (dp_config d) s)\<rparr>)
   \<and> (patterns s (dp_name d) \<noteq> None \<or> inherited (dp_name d) \<or> table (dp_type d) = None \<longrightarrow>
        createCachedDefaultPattern table d s = Returns s)
   \<and> length (created (state_of (after (createCachedDefaultPattern table d s)
                (createCachedDefaultPattern table d))))
        \<le> length (created s) + 1"
proof (intro conjI impI)
  show "after (createCachedDefaultPattern table d s) (createCachedDefaultPattern table d) =
     createCachedDefaultPattern table d s"
    by (rule createCachedDefaultPattern_idem)
next
  assume a: "patterns s (dp_name d) = None \<and> \<not> inherited (dp_name d) \<and> table (dp_type d) = Some mk"
  have first: "createCachedDefaultPattern table d s =
           Returns
             (s\<lparr>created := created s @ [(dp_name d, cp_pattern (mk (dp_config d) s))],
                patterns := (patterns s)(dp_name d \<mapsto>
                  \<lparr>pat_scale = (case cp_scale (mk (dp_config d) s) of None \<Rightarrow> 1 | Some v \<Rightarrow> v),
                   pat_width = (case cp_width (mk (dp_config d) s) of None \<Rightarrow> 10 | Some v \<Rightarrow> v),
                   pat_pattern = cp_pattern (mk (dp_config d) s)\<rparr>)\<rparr>)"
    using a by (intro createCachedDefaultPattern_absent) simp_all
  show "created (state_of (after (createCachedDefaultPattern table d s)
                   (createCachedDefaultPattern table d))) =
          created s @ [(dp_name d, cp_pattern (mk (dp_config d) s))]"
    by (simp only: createCachedDefaultPattern_idem) (simp add: first)
  show "patterns (state_of (after (createCachedDefaultPattern table d s)
                      (createCachedDefaultPattern table d))) (dp_name d) =
          Some \<lparr>pat_scale = (case cp_scale (mk (dp_config d) s) of None \<Rightarrow> 1 | Some v \<Rightarrow> v),
                pat_width = (case cp_width (mk (dp_config d) s) of None \<Rightarrow> 10 | Some v \<Rightarrow> v),
                pat_pattern = cp_pattern (mk (dp_config d) s)\<rparr>"
    by (simp only: createCachedDefaultPattern_idem) (simp add: first)
next
  assume "patterns s (dp_name d) \<noteq> None \<or> inherited (dp_name d) \<or> table (dp_type d) = None"
  then show "createCachedDefaultPattern table d s = Returns s"
    by (rule createCachedDefaultPattern_skipped)
next
  show "length (created (state_of (after (createCachedDefaultPattern table d s)
                (createCachedDefaultPattern table d))))
        \<le> length (created s) + 1"
    by (simp only: createCachedDefaultPattern_idem)
       (simp add: createCachedDefaultPattern_def createDefaultPattern_def createBlockPattern_def
          get_property_def Let_def split: option.split)
qed

theorem createCachedDefaultPattern_once_witness:
  "created
     (state_of
       (after
         (createCachedDefaultPattern
            [''stripes'' \<mapsto> (\<lambda>cfg s. \<lparr>cp_scale = None, cp_width = Some cfg, cp_pattern = length (created s)\<rparr>)]
            \<lparr>dp_name = ''a'', dp_type = ''stripes'', dp_config = 20\<rparr> engine0)
         (createCachedDefaultPattern
            [''stripes'' \<mapsto> (\<lambda>cfg s. \<lparr>cp_scale = None, cp_width = Some cfg, cp_pattern = length (created s)\<rparr>)]
            \<lparr>dp_name = ''a'', dp_type = ''stripes'', dp_config = 20\<rparr>)))
   = [(''a'', 0)]
   \<and> patterns
     (state_of
       (after
         (createCachedDefaultPattern
            [''stripes'' \<mapsto> (\<lambda>cfg s. \<lparr>cp_scale = None, cp_width = Some cfg, cp_pattern = length (created s)\<rparr>)]
            \<lparr>dp_name = ''a'', dp_type = ''stripes'', dp_config = 20\<rparr> engine0)
         (createCachedDefaultPattern
            [''stripes'' \<mapsto> (\<lambda>cfg s. \<lparr>cp_scale = None, cp_width = Some cfg, cp_pattern = length (created s)\<rparr>)]
            \<lparr>dp_name = ''a'', dp_type = ''stripes'', dp_config = 20\<rparr>))) ''a''
   = Some \<lparr>pat_scale = 1, pat_width = 20, pat_pattern = 0\<rparr>
   \<and> createCachedDefaultPattern
        [''stripes'' \<mapsto> (\<lambda>cfg s. \<lparr>cp_scale = None, cp_width = Some cfg, cp_pattern = length (created s)\<rparr>)]
        \<lparr>dp_name = ''constructor'', dp_type = ''stripes'', dp_config = 20\<rparr> engine0
     = Returns engine0"
proof -
  let ?mk = "\<lambda>cfg s. \<lparr>cp_scale = None, cp_width = Some cfg, cp_pattern = length (created s)\<rparr>"
  let ?table = "[''stripes'' \<mapsto> ?mk]"
  let ?d = "\<lparr>dp_name = ''a'', dp_type = ''stripes'', dp_config = 20 :: real\<rparr>"
  let ?c = "\<lparr>dp_name = ''constructor'', dp_type = ''stripes'', dp_config = 20 :: real\<rparr>"
  let ?twice = "state_of (after (createCachedDefaultPattern ?table ?d engine0)
                  (createCachedDefaultPattern ?table ?d))"
  have pre: "patterns engine0 (dp_name ?d) = None \<and> \<not> inherited (dp_name ?d) \<and>
             ?table (dp_type ?d) = Some ?mk"
    by (simp add: engine0_def inherited_def prototype_names_def)
  have "created ?twice = created engine0 @ [(dp_name ?d, cp_pattern (?mk (dp_config ?d) engine0))]
        \<and> patterns ?twice (dp_name ?d) =
          Some \<lparr>pat_scale = (case cp_scale (?mk (dp_config ?d) engine0) of None \<Rightarrow> 1 | Some v \<Rightarrow> v),
                pat_width = (case cp_width (?mk (dp_config ?d) engine0) of None \<Rightarrow> 10 | Some v \<Rightarrow> v),
                pat_pattern = cp_pattern (?mk (dp_config ?d) engine0)\<rparr>"
    using pre createCachedDefaultPattern_once [of ?table ?d engine0 ?mk] by blast
  moreover have "inherited (dp_name ?c)"
    by (simp add: inherited_def prototype_names_def)
  then have "createCachedDefaultPattern ?table ?c engine0 = Returns engine0"
    using createCachedDefaultPattern_once [of ?table ?c engine0 ?mk] by blast
  ultimately show ?thesis
    by (simp add: engine0_def)
qed

text \<open>
  C8 as stated fails for a descriptor of an unknown kind: \<open>createDefaultPattern\<close> finds no
  generator for the kind \<open>waves\<close> and does nothing, so two registrations create no pattern
  instance, not exactly one, and the registry stays without the name.
\<close>

theorem createCachedDefaultPattern_unknown_kind_counterexample:
  "created
     (state_of
       (after
         (createCachedDefaultPattern
            [''stripes'' \<mapsto> (\<lambda>cfg s. \<lparr>cp_scale = None, cp_width = Some cfg, cp_pattern = length (created s)\<rparr>)]
            \<lparr>dp_name = ''a'', dp_type = ''waves'', dp_config = 20\<rparr> engine0)
         (createCachedDefaultPattern
            [''stripes'' \<mapsto> (\<lambda>cfg s. \<lparr>cp_scale = None, cp_width = Some cfg, cp_pattern = length (created s)\<rparr>)]
            \<lparr>dp_name = ''a'', dp_type = ''waves'', dp_config = 20\<rparr>)))
   = []
   \<and> patterns
     (state_of
       (after
         (createCachedDefaultPattern
            [''stripes'' \<mapsto> (\<lambda>cfg s. \<lparr>cp_scale = None, cp_width = Some cfg, cp_pattern = length (created s)\<rparr>)]
            \<lparr>dp_name = ''a'', dp_type = ''waves'', dp_config = 20\<rparr> engine0)
         (createCachedDefaultPattern
            [''stripes'' \<mapsto> (\<lambda>cfg s. \<lparr>cp_scale = None, cp_width = Some cfg, cp_pattern = length (created s)\<rparr>)]
            \<lparr>dp_name = ''a'', dp_type = ''waves'', dp_config = 20\<rparr>))) ''a''
   = None"
  by (simp add: createCachedDefaultPattern_def createDefaultPattern_def get_property_def
      inherited_def prototype_names_def engine0_def)

subsection \<open>The order of resolution\<close>

text \<open>
  C1 on a queue with the priorities 2 and 10. Priority 2 receives a stroke, a text and a
  rectangle, in that order, and priority 10 a stroke. \<open>resolveQueue\<close> paints the bucket of
  priority 2 as rectangle, text, stroke; but it visits the priorities in the order of
  their decimal strings, \<open>"10"\<close> before \<open>"2"\<close>, so the stroke of priority 10 is painted
  first, where the ascending numeric order paints it last.
\<close>

theorem resolveQueue_paints_10_before_2:
  "array_sort (Object_keys (queue (state_of
     (addRect 1 2 (addText [0x61] 0 0 50 2
        (addStroke \<lparr>stroke_color = ''blue'', stroke_x = 1, stroke_y = 2, stroke_w = 3, stroke_h = 4\<rparr> 2
          (addStroke \<lparr>stroke_color = ''green'', stroke_x = 5, stroke_y = 6, stroke_w = 7, stroke_h = 8\<rparr> 10
             engine0))))))) = [10, 2]
   \<and> map_outcome ctx
     (after
        (addRect 1 2 (addText [0x61] 0 0 50 2
           (addStroke \<lparr>stroke_color = ''blue'', stroke_x = 1, stroke_y = 2, stroke_w = 3, stroke_h = 4\<rparr> 2
             (addStroke \<lparr>stroke_color = ''green'', stroke_x = 5, stroke_y = 6, stroke_w = 7, stroke_h = 8\<rparr> 10
                engine0))))
        (resolveQueue (\<lambda>t. 5 * real (length t))))
   = Returns
       [SetField ''fillStyle'' (Str ''black''),
        SetField ''strokeStyle'' (Str ''green''), SetLineDash [],
        SetField ''lineWidth'' (Num (3 / 2)), StrokeRect 5 6 7 8,
        SetField ''fillStyle'' (Str ''red''), FillRect 0 0 100 16,
        SetField ''fillStyle'' (Str ''black''), FillText [0x61] 4 13,
        SetField ''strokeStyle'' (Str ''blue''), SetLineDash [],
        SetField ''lineWidth'' (Num (3 / 2)), StrokeRect 1 2 3 4]"
  by (simp add: engine0_def addRect_def addText_def addStroke_def getQueue_def modify_bucket_def
    empty_bucket_def push_rect_def push_color_def get_property_def inherited_def
    prototype_names_def pattern_or_none_def Let_def
    resolveQueue_def Object_keys_def array_index_def array_sort_def toString_def digit_char_def
    renderPriority_def renderRects_def Object_entries_def string_index_def is_digit_def
    renderPattern_def renderColor_def renderRect_def renderBlock_def setCtxValue_def
    renderTexts_def renderText_def fittedText_def renderStrokes_def renderStroke_def)

end
